theory Spec2Isabelle
  imports Complex_Main "HOL-Library.Multiset"
begin

section \<open>Python strings\<close>

text \<open>
  A Python \<open>str\<close> is a \<open>string\<close>. Characters are bytes, so the model covers ASCII
  text: \<open>str.lower\<close> maps \<open>A\<close>..\<open>Z\<close> to \<open>a\<close>..\<open>z\<close> and leaves every other
  character alone, and \<open>\d\<close> is one of \<open>0\<close>..\<open>9\<close>.
\<close>

definition lower_char :: "char \<Rightarrow> char" where
  "lower_char c =
     (case map_of (zip ''ABCDEFGHIJKLMNOPQRSTUVWXYZ'' ''abcdefghijklmnopqrstuvwxyz'') c of
        Some l \<Rightarrow> l
      | None \<Rightarrow> c)"

definition lower :: "string \<Rightarrow> string" where
  "lower s = map lower_char s"

text \<open>\<open>s.startswith(p)\<close>, and the operator \<open>sub in s\<close> on strings.\<close>

fun startswith :: "string \<Rightarrow> string \<Rightarrow> bool" where
  "startswith s [] = True"
| "startswith [] (p # ps) = False"
| "startswith (c # cs) (p # ps) = (c = p \<and> startswith cs ps)"

fun str_in :: "string \<Rightarrow> string \<Rightarrow> bool" where
  "str_in sub [] = (sub = [])"
| "str_in sub (c # cs) = (startswith (c # cs) sub \<or> str_in sub cs)"

definition is_digit :: "char \<Rightarrow> bool" where
  "is_digit c = (c \<in> set ''0123456789'')"

text \<open>
  \<open>re.match(r"^\d{4}-\d{2}$", col)\<close>: four digits, a hyphen, two digits, and then the
  end of the string; Python's \<open>$\<close> also matches just before one final newline.
\<close>

definition month_pattern :: "string \<Rightarrow> bool" where
  "month_pattern s =
     (case s of
        [a, b, c, d, h, e, f] \<Rightarrow>
          is_digit a \<and> is_digit b \<and> is_digit c \<and> is_digit d \<and> h = CHR ''-'' \<and>
          is_digit e \<and> is_digit f
      | [a, b, c, d, h, e, f, nl] \<Rightarrow>
          is_digit a \<and> is_digit b \<and> is_digit c \<and> is_digit d \<and> h = CHR ''-'' \<and>
          is_digit e \<and> is_digit f \<and> nl = CHR 0x0A
      | _ \<Rightarrow> False)"

text \<open>\<open>re.match(r"^\d{4}-\d{2}-\d{2}", col)\<close>: a prefix test, nothing is required after it.\<close>

definition date_pattern :: "string \<Rightarrow> bool" where
  "date_pattern s =
     (case s of
        a # b # c # d # h # e # f # i # g # k # _ \<Rightarrow>
          is_digit a \<and> is_digit b \<and> is_digit c \<and> is_digit d \<and> h = CHR ''-'' \<and>
          is_digit e \<and> is_digit f \<and> i = CHR ''-'' \<and> is_digit g \<and> is_digit k
      | _ \<Rightarrow> False)"

text \<open>The decimal digits of a natural number, as \<open>str\<close> prints them.\<close>

definition digit_char :: "nat \<Rightarrow> char" where
  "digit_char d = ''0123456789'' ! d"

fun str_nat :: "nat \<Rightarrow> string" where
  "str_nat n = (if n < 10 then [digit_char n] else str_nat (n div 10) @ [digit_char (n mod 10)])"

declare str_nat.simps [simp del]

section \<open>Cells, frames and the agent state\<close>

text \<open>
  A cell of the sheet, and so a value in a pandas column or a column label, is a text, a
  number, or the missing value \<open>NaN\<close> that pandas puts where the sheet is blank. A number
  carries its exact value; the rounding of float additions is not part of the model.
\<close>

datatype cell = Str string | Num rat | NaN

datatype pyerr = KeyError | TypeError | ValueError | IndexError | AttributeError

text \<open>
  The dtype of a column. pandas keeps a column that it read together with a text (a
  header line above the numbers, as in every sheet of the loader) as \<open>object\<close>: its cells
  are Python objects. A column read from numbers and blanks only is a numeric array
  (\<open>int64\<close> or \<open>float64\<close>).
\<close>

datatype dtype = Object | Numeric

text \<open>
  A \<open>DataFrame\<close>: the column labels in order, the dtype of each column, and the rows in
  order, each row holding one cell per column.
\<close>

record frame =
  columns :: "cell list"
  dtypes :: "dtype list"
  rows :: "cell list list"

text \<open>
  Frames are objects: a state refers to its frame. The store holds the frames allocated so
  far; \<open>next_ref\<close> is the first unused reference.
\<close>

type_synonym ref = nat

record store =
  frames :: "ref \<Rightarrow> frame"
  next_ref :: ref

text \<open>
  What a tool returns under the key \<open>result\<close>: a message, the list of
  \<open>{"product": p, "sales": {...}}\<close> entries, or a list of row dictionaries.
\<close>

datatype result =
    Text string
  | Product_records "(cell \<times> (cell \<times> cell) list) list"
  | Records "(cell \<times> cell) list list"

record AgentState =
  question :: string
  data :: ref
  intermediate_steps :: "result list"
  final_answer :: string

section \<open>Python values\<close>

text \<open>
  \<open>str(x)\<close>. The Excel reader hands an integral number over as a Python \<open>int\<close>, which
  prints without a fraction; any other number is a float and prints in positional
  notation (the model writes out at most 17 digits of the fraction).
\<close>

fun frac_digits :: "nat \<Rightarrow> rat \<Rightarrow> string" where
  "frac_digits 0 x = []"
| "frac_digits (Suc k) x =
     (if x = 0 then []
      else digit_char (nat \<lfloor>x * 10\<rfloor>) # frac_digits k (x * 10 - of_int \<lfloor>x * 10\<rfloor>))"

definition str_num :: "rat \<Rightarrow> string" where
  "str_num r =
     (let a = \<bar>r\<bar>; fp = a - of_int \<lfloor>a\<rfloor>
      in (if r < 0 then ''-'' else []) @ str_nat (nat \<lfloor>a\<rfloor>) @
         (if fp = 0 then [] else CHR ''.'' # frac_digits 17 fp))"

fun py_str :: "cell \<Rightarrow> string" where
  "py_str (Str s) = s"
| "py_str (Num r) = str_num r"
| "py_str NaN = ''nan''"

text \<open>Truth value of an object: the empty text and zero are false, \<open>NaN\<close> is true.\<close>

fun truthy :: "cell \<Rightarrow> bool" where
  "truthy (Str s) = (s \<noteq> [])"
| "truthy (Num r) = (r \<noteq> 0)"
| "truthy NaN = True"

text \<open>The operator \<open>==\<close> on cell values: \<open>NaN\<close> equals nothing, itself included.\<close>

fun py_eq :: "cell \<Rightarrow> cell \<Rightarrow> bool" where
  "py_eq (Str a) (Str b) = (a = b)"
| "py_eq (Num a) (Num b) = (a = b)"
| "py_eq _ _ = False"

text \<open>
  The format \<open>{x:.2f}\<close>: the value rounded to two decimals, a tie going to the even
  neighbour, printed with the sign of \<open>x\<close> and exactly two digits after the point.
\<close>

definition round_half_even :: "rat \<Rightarrow> int" where
  "round_half_even x =
     (let f = \<lfloor>x\<rfloor>; r = x - of_int f
      in if r < 1 / 2 then f else if 1 / 2 < r then f + 1 else if even f then f else f + 1)"

definition format_2f :: "rat \<Rightarrow> string" where
  "format_2f x =
     (let c = nat (round_half_even (\<bar>x\<bar> * 100))
      in (if x < 0 then ''-'' else []) @ str_nat (c div 100) @
         [CHR ''.'', digit_char (c mod 100 div 10), digit_char (c mod 10)])"

text \<open>
  A dictionary keeps its keys in insertion order; storing under a key that is present
  replaces the value where the key stands.
\<close>

fun dict_set :: "'k \<Rightarrow> 'v \<Rightarrow> ('k \<times> 'v) list \<Rightarrow> ('k \<times> 'v) list" where
  "dict_set k v [] = [(k, v)]"
| "dict_set k v (p # ps) = (if fst p = k then (k, v) # ps else p # dict_set k v ps)"

definition to_dict :: "('k \<times> 'v) list \<Rightarrow> ('k \<times> 'v) list" where
  "to_dict ps = fold (\<lambda>p d. dict_set (fst p) (snd p) d) ps []"

section \<open>pandas operations\<close>

text \<open>The positions at which a label stands among the columns.\<close>

definition positions :: "cell \<Rightarrow> cell list \<Rightarrow> nat list" where
  "positions l cols = filter (\<lambda>i. cols ! i = l) [0..<length cols]"

text \<open>
  \<open>df[[l1, l2, ...]]\<close>: the columns with these labels, in the order of the list, every
  column that carries the label; \<open>KeyError\<close> when a label is absent.
\<close>

definition select_columns :: "frame \<Rightarrow> cell list \<Rightarrow> pyerr + frame" where
  "select_columns d ls =
     (if list_ex (\<lambda>l. positions l (columns d) = []) ls then Inl KeyError
      else let idx = concat (map (\<lambda>l. positions l (columns d)) ls)
           in Inr \<lparr>columns = map (\<lambda>i. columns d ! i) idx,
                   dtypes = map (\<lambda>i. dtypes d ! i) idx,
                   rows = map (\<lambda>r. map (\<lambda>i. r ! i) idx) (rows d)\<rparr>)"

text \<open>\<open>df[df[label] == v]\<close>, for the column at position \<open>i\<close>.\<close>

definition filter_rows :: "frame \<Rightarrow> nat \<Rightarrow> cell \<Rightarrow> frame" where
  "filter_rows d i v = d\<lparr>rows := filter (\<lambda>r. py_eq (r ! i) v) (rows d)\<rparr>"

definition take_rows :: "frame \<Rightarrow> nat list \<Rightarrow> frame" where
  "take_rows d ix = d\<lparr>rows := map (\<lambda>j. rows d ! j) ix\<rparr>"

text \<open>
  \<open>df.sum(axis=1)\<close> with the default \<open>skipna=True\<close>, over object columns: in each row
  the missing cells are replaced by 0 and the cells are added from left to right with
  Python's \<open>+\<close>. Numbers add, texts concatenate, and a text with a number raises
  \<open>TypeError\<close>. The sum of no cells is 0.
\<close>

definition fill0 :: "cell \<Rightarrow> cell" where
  "fill0 c = (if c = NaN then Num 0 else c)"

fun py_add :: "cell \<Rightarrow> cell \<Rightarrow> pyerr + cell" where
  "py_add (Num a) (Num b) = Inr (Num (a + b))"
| "py_add (Str a) (Str b) = Inr (Str (a @ b))"
| "py_add _ _ = Inl TypeError"

fun add_all :: "cell \<Rightarrow> cell list \<Rightarrow> pyerr + cell" where
  "add_all acc [] = Inr acc"
| "add_all acc (c # cs) = (case py_add acc c of Inl e \<Rightarrow> Inl e | Inr a \<Rightarrow> add_all a cs)"

definition row_sum :: "cell list \<Rightarrow> pyerr + cell" where
  "row_sum r = (case map fill0 r of [] \<Rightarrow> Inr (Num 0) | c # cs \<Rightarrow> add_all c cs)"

fun row_sums :: "cell list list \<Rightarrow> pyerr + cell list" where
  "row_sums [] = Inr []"
| "row_sums (r # rs) =
     (case row_sum r of
        Inl e \<Rightarrow> Inl e
      | Inr t \<Rightarrow> (case row_sums rs of Inl e \<Rightarrow> Inl e | Inr ts \<Rightarrow> Inr (t # ts)))"

text \<open>
  The dtype of the sums, and the sums of a frame without object columns. As soon as one
  of the summed columns is \<open>object\<close> the rows are summed as Python objects and the result
  is an \<open>object\<close> column, whatever its cells are. Otherwise the frame is a numeric
  array and numpy sums each row with machine arithmetic (\<open>int64\<close> additions wrap,
  \<open>float64\<close> additions round, a missing value counts 0): \<open>np_sum\<close> stands for that sum
  of one row and is a parameter.
\<close>

definition sum_axis1 :: "(cell list \<Rightarrow> cell) \<Rightarrow> frame \<Rightarrow> pyerr + cell list \<times> dtype" where
  "sum_axis1 np_sum d =
     (if Object \<in> set (dtypes d)
      then (case row_sums (rows d) of
              Inl e \<Rightarrow> Inl e
            | Inr totals \<Rightarrow> Inr (totals, Object))
      else Inr (map np_sum (rows d), Numeric))"

text \<open>
  \<open>df[label] = values\<close>: a new label adds a column at the end, a label that is present
  has its column overwritten. The column takes the dtype of the values.
\<close>

definition set_column :: "frame \<Rightarrow> cell \<Rightarrow> dtype \<Rightarrow> cell list \<Rightarrow> frame" where
  "set_column d l dt vals =
     (case positions l (columns d) of
        [] \<Rightarrow> \<lparr>columns = columns d @ [l],
               dtypes = dtypes d @ [dt],
               rows = map2 (\<lambda>r v. r @ [v]) (rows d) vals\<rparr>
      | ps \<Rightarrow> \<lparr>columns = columns d,
               dtypes = fold (\<lambda>i t. t[i := dt]) ps (dtypes d),
               rows = map2 (\<lambda>r v. fold (\<lambda>i r'. r'[i := v]) ps r) (rows d) vals\<rparr>)"


fun num_val :: "cell \<Rightarrow> rat" where
  "num_val (Num r) = r"
| "num_val _ = 0"

text \<open>
  \<open>df.nlargest(n, label)\<close> with the default \<open>keep='first'\<close>. pandas looks at the dtype of
  the column before it looks at any value: an \<open>object\<close> column is refused with
  \<open>TypeError\<close> ("cannot use method 'nlargest' with this dtype"), also when every cell is
  a number and also when the frame has no rows. A label that stands on several columns
  has no dtype (\<open>AttributeError\<close>). On a numeric column the result is the \<open>n\<close> rows with
  the largest values, largest first, among equal values the rows that come first in the
  frame, in the order of the frame, and rows with a missing value after all others.
\<close>

definition nlargest_index :: "nat \<Rightarrow> cell list \<Rightarrow> nat list" where
  "nlargest_index n vals =
     take n (sort_key (\<lambda>i. - num_val (vals ! i)) (filter (\<lambda>i. vals ! i \<noteq> NaN) [0..<length vals])
             @ filter (\<lambda>i. vals ! i = NaN) [0..<length vals])"

definition nlargest :: "nat \<Rightarrow> cell \<Rightarrow> frame \<Rightarrow> pyerr + frame" where
  "nlargest n l d =
     (case positions l (columns d) of
        [] \<Rightarrow> Inl KeyError
      | [i] \<Rightarrow>
          if dtypes d ! i = Object then Inl TypeError
          else Inr (take_rows d (nlargest_index n (map (\<lambda>r. r ! i) (rows d))))
      | _ \<Rightarrow> Inl AttributeError)"

text \<open>
  \<open>df.sort_values(label, ascending=False)\<close> with the default \<open>kind='quicksort'\<close>. pandas
  sets the missing values aside, reverses the rest, asks numpy for the permutation that
  sorts it (\<open>argsort\<close>), reverses the answer and puts the missing values last. The
  \<open>argsort\<close> of numpy is a parameter: for quicksort numpy promises a permutation that puts
  the values in ascending order and nothing about equal values; the procedure it runs
  on a column of objects is \<open>npy_argsort\<close> below. A label that stands on several
  columns raises \<open>ValueError\<close>.
\<close>

definition nargsort_desc :: "(cell list \<Rightarrow> pyerr + nat list) \<Rightarrow> cell list \<Rightarrow> pyerr + nat list" where
  "nargsort_desc argsort items =
     (let idx = [0..<length items];
          non_nan_idx = rev (filter (\<lambda>i. items ! i \<noteq> NaN) idx);
          nan_idx = filter (\<lambda>i. items ! i = NaN) idx
      in case argsort (map (\<lambda>i. items ! i) non_nan_idx) of
           Inl e \<Rightarrow> Inl e
         | Inr p \<Rightarrow> Inr (rev (map (\<lambda>k. non_nan_idx ! k) p) @ nan_idx))"

definition sort_values_desc ::
  "(cell list \<Rightarrow> pyerr + nat list) \<Rightarrow> frame \<Rightarrow> cell \<Rightarrow> pyerr + frame" where
  "sort_values_desc argsort d l =
     (case positions l (columns d) of
        [] \<Rightarrow> Inl KeyError
      | [i] \<Rightarrow>
          (case nargsort_desc argsort (map (\<lambda>r. r ! i) (rows d)) of
             Inl e \<Rightarrow> Inl e
           | Inr ix \<Rightarrow> Inr (take_rows d ix))
      | _ \<Rightarrow> Inl ValueError)"

text \<open>\<open>df.to_dict(orient="records")\<close>: one dictionary per row, keyed by the column labels.\<close>

definition to_dict_records :: "frame \<Rightarrow> (cell \<times> cell) list list" where
  "to_dict_records d = map (\<lambda>r. to_dict (zip (columns d) r)) (rows d)"

section \<open>The router\<close>

text \<open>
  \<open>router\<close> of \<open>advanced_sales_agent.py\<close>. It returns the name of the tool; the intents
  \<open>ProductSales\<close>, \<open>TopProducts\<close>, \<open>MonthlySales\<close> and \<open>GeneralQuery\<close> are the four names
  \<open>get_product_sales\<close>, \<open>get_top_products\<close>, \<open>get_monthly_sales\<close> and \<open>general_query\<close>.
\<close>

definition month_columns :: "frame \<Rightarrow> string list" where
  "month_columns d =
     concat (map (\<lambda>col. case col of Str s \<Rightarrow> (if month_pattern s then [s] else []) | _ \<Rightarrow> [])
       (columns d))"

definition router :: "AgentState \<Rightarrow> store \<Rightarrow> string" where
  "router st h =
     (let q = lower (question st);
          d = frames h (data st);
          months = month_columns d
      in if str_in ''product'' q \<and> (str_in ''sales'' q \<or> str_in ''sell'' q)
           then ''get_product_sales''
         else if str_in ''top'' q \<and> (str_in ''product'' q \<or> str_in ''selling'' q)
           then ''get_top_products''
         else if str_in ''month'' q \<or> list_ex (\<lambda>month. str_in month q) months
           then ''get_monthly_sales''
         else ''general_query'')"

section \<open>The tools of the advanced agent\<close>

text \<open>
  A tool takes the state and the store and returns its result, or the exception it
  raises, together with the store it leaves behind.
\<close>

text \<open>
  \<open>get_product_sales\<close>: every product whose name occurs in the question.
  \<open>data["Product Name"]\<close> is read at the first position of the label; the loader
  never gives this label to two columns.
\<close>

definition get_product_sales :: "AgentState \<Rightarrow> store \<Rightarrow> (pyerr + result) \<times> store" where
  "get_product_sales st h =
     (let q = question st;
          d = frames h (data st)
      in case positions (Str ''Product Name'') (columns d) of
           [] \<Rightarrow> (Inl KeyError, h)
         | i # _ \<Rightarrow>
             let products =
                   filter (\<lambda>product. str_in (lower (py_str product)) (lower q))
                     (map (\<lambda>r. r ! i) (rows d))
             in if products = []
                then (Inr (Text ''No matching products found in the data.''), h)
                else (Inr (Product_records (concat (map
                        (\<lambda>product.
                           case rows (filter_rows d i product) of
                             [] \<Rightarrow> []
                           | r # _ \<Rightarrow>
                               [(product, to_dict (zip (drop 1 (columns d)) (drop 1 r)))])
                        products))), h))"

text \<open>
  \<open>get_top_products\<close>: \<open>state["data"].copy()\<close> allocates a new frame; the column
  \<open>Total Sales\<close> is stored into the copy. \<open>np_sum\<close> is numpy's sum of one row of a
  numeric frame (see \<open>sum_axis1\<close>).
\<close>

definition get_top_products ::
  "(cell list \<Rightarrow> cell) \<Rightarrow> AgentState \<Rightarrow> store \<Rightarrow> (pyerr + result) \<times> store" where
  "get_top_products np_sum st h =
     (let c = next_ref h;
          h1 = h\<lparr>frames := (frames h)(c := frames h (data st)), next_ref := Suc c\<rparr>;
          d = frames h1 c;
          sales_columns = drop 1 (columns d)
      in case select_columns d sales_columns of
           Inl e \<Rightarrow> (Inl e, h1)
         | Inr sales \<Rightarrow>
             (case sum_axis1 np_sum sales of
                Inl e \<Rightarrow> (Inl e, h1)
              | Inr (totals, dt) \<Rightarrow>
                  let h2 = h1\<lparr>frames :=
                              (frames h1)(c := set_column d (Str ''Total Sales'') dt totals)\<rparr>
                  in case nlargest 5 (Str ''Total Sales'') (frames h2 c) of
                       Inl e \<Rightarrow> (Inl e, h2)
                     | Inr top_rows \<Rightarrow>
                         (case select_columns top_rows [Str ''Product Name'', Str ''Total Sales''] of
                            Inl e \<Rightarrow> (Inl e, h2)
                          | Inr top_products \<Rightarrow>
                              (Inr (Records (to_dict_records top_products)), h2))))"

text \<open>\<open>get_monthly_sales\<close>: the sales of the first month column named in the question.\<close>

definition get_monthly_sales ::
  "(cell list \<Rightarrow> pyerr + nat list) \<Rightarrow> AgentState \<Rightarrow> store \<Rightarrow> (pyerr + result) \<times> store" where
  "get_monthly_sales argsort st h =
     (let q = question st;
          d = frames h (data st);
          months_in_data =
            filter (\<lambda>c. c \<noteq> Str ''Product Name'' \<and> c \<noteq> Str ''Total Sales'') (columns d);
          found_month =
            find (\<lambda>month. case month of Str s \<Rightarrow> str_in s q | _ \<Rightarrow> False) months_in_data
      in case found_month of
           None \<Rightarrow> (Inr (Text ''No specific month mentioned in the question.''), h)
         | Some month \<Rightarrow>
             if \<not> truthy month
             then (Inr (Text ''No specific month mentioned in the question.''), h)
             else (case select_columns d [Str ''Product Name'', month] of
                     Inl e \<Rightarrow> (Inl e, h)
                   | Inr sub \<Rightarrow>
                       (case sort_values_desc argsort sub month of
                          Inl e \<Rightarrow> (Inl e, h)
                        | Inr monthly_sales \<Rightarrow>
                            (Inr (Records (to_dict_records monthly_sales)), h))))"

section \<open>The tool of the basic agent\<close>

text \<open>
  \<open>get_product_total_sales\<close> of \<open>basic_sales_agent.py\<close>. The frame is the module's
  global \<open>data\<close>, loaded once; the tool reads it and the question. \<open>data["Product Name"]\<close>
  is the column at the first position of the label.
\<close>

definition get_product_total_sales :: "frame \<Rightarrow> string \<Rightarrow> pyerr + result" where
  "get_product_total_sales d q =
     (case positions (Str ''Product Name'') (columns d) of
        [] \<Rightarrow> Inl KeyError
      | i # _ \<Rightarrow>
          (case find (\<lambda>product. str_in (lower (py_str product)) (lower q))
                  (map (\<lambda>r. r ! i) (rows d)) of
             None \<Rightarrow> Inr (Text ''Product not found in the data.'')
           | Some product_name \<Rightarrow>
               if \<not> truthy product_name then Inr (Text ''Product not found in the data.'')
               else
                 let sales_columns = filter (\<lambda>col. col \<noteq> Str ''Product Name'') (columns d);
                     product_data = filter_rows d i product_name
                 in if rows product_data = []
                    then Inr (Text ''No sales data available for this product.'')
                    else (case select_columns product_data sales_columns of
                            Inl e \<Rightarrow> Inl e
                          | Inr sales \<Rightarrow>
                              (case row_sums (rows sales) of
                                 Inl e \<Rightarrow> Inl e
                               | Inr [] \<Rightarrow> Inl IndexError
                               | Inr (Num total_sales # _) \<Rightarrow>
                                   Inr (Text (''Total sales for '' @ py_str product_name @
                                              '': '' @ format_2f total_sales))
                               | Inr (_ # _) \<Rightarrow> Inl ValueError))))"

section \<open>The loader\<close>

text \<open>
  The header loop of \<open>load_excel_data\<close>: \<open>seen\<close> counts the occurrences of each header,
  \<open>new_headers\<close> collects the column names.
\<close>

fun header_loop :: "cell list \<Rightarrow> (cell \<rightharpoonup> nat) \<Rightarrow> string list \<Rightarrow> string list" where
  "header_loop [] seen new_headers = new_headers"
| "header_loop (header # hs) seen new_headers =
     (if header = NaN then header_loop hs seen (new_headers @ [''unnamed''])
      else case seen header of
             Some n \<Rightarrow>
               header_loop hs (seen(header \<mapsto> n + 1))
                 (new_headers @ [py_str header @ ''_'' @ str_nat (n + 1)])
           | None \<Rightarrow> header_loop hs (seen(header \<mapsto> 0)) (new_headers @ [py_str header]))"

text \<open>
  The loop over the date columns rewrites the cells of a column whose label starts like
  a date: \<open>to_ym\<close> stands for \<open>pd.to_datetime(..., errors="coerce")\<close> followed by
  \<open>strftime("%Y-%m")\<close> on one cell; the column of texts it yields is an \<open>object\<close>
  column. When the label stands on several columns the conversion raises and the
  \<open>except\<close> clause leaves the frame as it is.
\<close>

definition normalise_column :: "(cell \<Rightarrow> cell) \<Rightarrow> cell \<Rightarrow> frame \<Rightarrow> frame" where
  "normalise_column to_ym col df =
     (case positions col (columns df) of
        [i] \<Rightarrow> df\<lparr>dtypes := (dtypes df)[i := Object],
                  rows := map (\<lambda>r. r[i := to_ym (r ! i)]) (rows df)\<rparr>
      | _ \<Rightarrow> df)"

text \<open>
  \<open>pd.read_excel(..., header=None)\<close> reads the header line as data: a column of the
  sheet that holds a text, in the header line or below, is an \<open>object\<close> column, and it
  stays one when the header line is cut off.
\<close>

definition read_dtype :: "cell list \<Rightarrow> dtype" where
  "read_dtype cells = (if list_ex (\<lambda>c. case c of Str s \<Rightarrow> True | _ \<Rightarrow> False) cells then Object else Numeric)"

text \<open>
  \<open>load_excel_data\<close>, from the sheet as \<open>pd.read_excel(..., header=None)\<close> returns it:
  all the rows of the sheet, the header row first.
\<close>

definition load_excel_data :: "(cell \<Rightarrow> cell) \<Rightarrow> cell list list \<Rightarrow> pyerr + frame" where
  "load_excel_data to_ym sheet =
     (case sheet of
        [] \<Rightarrow> Inl IndexError
      | headers # body \<Rightarrow>
          let new_headers = header_loop headers Map.empty [];
              df = \<lparr>columns = map Str new_headers,
                    dtypes = map (\<lambda>j. read_dtype (map (\<lambda>r. r ! j) sheet)) [0..<length headers],
                    rows = body\<rparr>;
              date_columns =
                filter (\<lambda>col. case col of Str s \<Rightarrow> date_pattern s | _ \<Rightarrow> False) (columns df)
          in Inr (fold (normalise_column to_ym) date_columns df))"

section \<open>The sorting procedure of numpy\<close>

text \<open>
  \<open>sort_values\<close> leaves the sorting to \<open>numpy.argsort\<close> with \<open>kind='quicksort'\<close>. For a
  column of Python objects, as the loader yields, numpy runs its generic
  \<open>npy_aquicksort\<close> (\<open>npysort/quicksort.cpp\<close>) with the comparison \<open><\<close> of the objects:
  an introsort on an array \<open>a\<close> of positions, which partitions a range of more than 17
  positions around the median of three, sorts a shorter range by insertion, and falls
  back on \<open>npy_aheapsort\<close> when the partitions nest deeper than twice the binary
  logarithm of the length. The names follow the C source: \<open>l\<close>, \<open>r\<close>, \<open>m\<close>, \<open>i\<close>, \<open>j\<close>
  are its pointers \<open>pl\<close>, \<open>pr\<close>, \<open>pm\<close>, \<open>pi\<close>, \<open>pj\<close>, as positions in \<open>a\<close>, and \<open>vp\<close> is
  the pivot. \<open>lt x y\<close> compares the values at the positions \<open>x\<close> and \<open>y\<close> of the column.
  For a numeric column numpy picks a kernel that depends on the processor, which is why
  \<open>sort_values_desc\<close> takes the procedure as a parameter.
\<close>



text \<open>\<open>INTP_SWAP(a[i], a[j])\<close>.\<close>

definition swap :: "nat list \<Rightarrow> nat \<Rightarrow> nat \<Rightarrow> nat list" where
  "swap a i j = a[i := a ! j, j := a ! i]"

text \<open>
  The two scans of the partition: \<open>do ++pi; while (cmp(a[pi], vp) < 0 && pi < pj)\<close> and
  \<open>do --pj; while (cmp(vp, a[pj]) < 0 && pi < pj)\<close>; each returns the pointer it stops at.
\<close>

function scan_up :: "(nat \<Rightarrow> nat \<Rightarrow> bool) \<Rightarrow> nat list \<Rightarrow> nat \<Rightarrow> nat \<Rightarrow> nat \<Rightarrow> nat" where
  "scan_up lt a vp i j =
     (if lt (a ! (i + 1)) vp \<and> i + 1 < j then scan_up lt a vp (i + 1) j else i + 1)"
  by pat_completeness auto
termination
  by (relation "measure (\<lambda>(lt, a, vp, i, j). j - i)") auto

function scan_down :: "(nat \<Rightarrow> nat \<Rightarrow> bool) \<Rightarrow> nat list \<Rightarrow> nat \<Rightarrow> nat \<Rightarrow> nat \<Rightarrow> nat" where
  "scan_down lt a vp i j =
     (if lt vp (a ! (j - 1)) \<and> i < j - 1 then scan_down lt a vp i (j - 1) else j - 1)"
  by pat_completeness auto
termination
  by (relation "measure (\<lambda>(lt, a, vp, i, j). j)") auto

text \<open>
  The loop \<open>for (;;)\<close> of the partition: scan from both ends, stop when the pointers
  have met, otherwise swap and go on.
\<close>

function part_loop ::
  "(nat \<Rightarrow> nat \<Rightarrow> bool) \<Rightarrow> nat list \<Rightarrow> nat \<Rightarrow> nat \<Rightarrow> nat \<Rightarrow> nat list \<times> nat" where
  "part_loop lt a vp i j =
     (let i' = scan_up lt a vp i j;
          j' = scan_down lt a vp i' j
      in if i' \<ge> j' then (a, i') else part_loop lt (swap a i' j') vp i' j')"
  by pat_completeness auto
termination
proof (relation "measure (\<lambda>(lt, a, vp, i, j). j)")
  show "wf (measure (\<lambda>(lt :: nat \<Rightarrow> nat \<Rightarrow> bool, a :: nat list, vp :: nat, i :: nat, j :: nat). j))"
    by simp
next
  fix lt :: "nat \<Rightarrow> nat \<Rightarrow> bool" and a vp i j x xa
  assume x: "x = scan_up lt a vp i j" and xa: "xa = scan_down lt a vp x j"
    and nle: "\<not> xa \<le> x"
  have "scan_down lt a vp p q \<le> q - 1" for p q
    by (induction lt a vp p q rule: scan_down.induct)
      (subst scan_down.simps, auto simp del: scan_down.simps)
  then have "xa \<le> j - 1"
    unfolding xa .
  with nle show "((lt, swap a x xa, vp, x, xa), (lt, a, vp, i, j))
        \<in> measure (\<lambda>(lt, a, vp, i, j). j)"
    by simp
qed

declare scan_up.simps [simp del] scan_down.simps [simp del] part_loop.simps [simp del]














section \<open>Notions of the specification and example data\<close>

text \<open>The spec's "contains": the text occurs somewhere in the question.\<close>

definition occurs :: "string \<Rightarrow> string \<Rightarrow> bool" where
  "occurs sub s \<longleftrightarrow> (\<exists>pre post. s = pre @ sub @ post)"

definition example_frame :: frame where
  "example_frame =
     \<lparr>columns = [Str ''Product Name'', Str ''2021-07'', Str ''2021-08''],
      dtypes = [Object, Object, Object],
      rows = [[Str ''PC-1000'', Num 10, Num 20], [Str ''PC-1000-X'', Num 30, Num 5]]\<rparr>"

definition example_store :: store where
  "example_store = \<lparr>frames = (\<lambda>r. example_frame), next_ref = 1\<rparr>"

definition ask :: "string \<Rightarrow> AgentState" where
  "ask q = \<lparr>question = q, data = 0, intermediate_steps = [], final_answer = []\<rparr>"



definition unnamed_row_frame :: frame where
  "unnamed_row_frame =
     \<lparr>columns = [Str ''Product Name'', Str ''2021-07''],
      dtypes = [Object, Object],
      rows = [[NaN, Num 5], [Str ''PC-1000'', Num 7]]\<rparr>"

definition names_only_frame :: frame where
  "names_only_frame =
     \<lparr>columns = [Str ''Product Name''], dtypes = [Object], rows = [[Str ''PC-1000'']]\<rparr>"

text \<open>
  The sum of a row without overflow and without rounding: what numpy's sum of a numeric
  row is as long as the numbers are integers of small size.
\<close>

definition exact_sum :: "cell list \<Rightarrow> cell" where
  "exact_sum r = Num (sum_list (map (\<lambda>c. case c of Num x \<Rightarrow> x | _ \<Rightarrow> 0) r))"

text \<open>The table of a sheet that has the header line only.\<close>

definition header_only_frame :: frame where
  "header_only_frame =
     \<lparr>columns = [Str ''Product Name'', Str ''2021-07''], dtypes = [Object, Object], rows = []\<rparr>"

definition header_only_store :: store where
  "header_only_store = \<lparr>frames = (\<lambda>r. header_only_frame), next_ref = 1\<rparr>"







text \<open>
  The match of a product name against the question, in the words of the specification:
  the lowercased name occurs in the lowercased question.
\<close>

definition name_in_question :: "string \<Rightarrow> cell \<Rightarrow> bool" where
  "name_in_question q c \<longleftrightarrow> occurs (lower (py_str c)) (lower q)"






section \<open>Facts about strings\<close>

lemma startswith_iff: "startswith s p \<longleftrightarrow> (\<exists>post. s = p @ post)"
  by (induction s p rule: startswith.induct) auto

lemma str_in_iff: "str_in sub s \<longleftrightarrow> (\<exists>pre post. s = pre @ sub @ post)"
proof (induction s)
  case Nil
  then show ?case by auto
next
  case (Cons c cs)
  have "(\<exists>pre post. c # cs = pre @ sub @ post) \<longleftrightarrow>
        (\<exists>post. c # cs = sub @ post) \<or> (\<exists>pre post. cs = pre @ sub @ post)"
  proof
    assume "\<exists>pre post. c # cs = pre @ sub @ post"
    then obtain pre post where e: "c # cs = pre @ sub @ post" by blast
    show "(\<exists>post. c # cs = sub @ post) \<or> (\<exists>pre post. cs = pre @ sub @ post)"
    proof (cases pre)
      case Nil
      with e show ?thesis by auto
    next
      case (Cons p ps)
      with e have "cs = ps @ sub @ post" by simp
      then show ?thesis by blast
    qed
  next
    assume "(\<exists>post. c # cs = sub @ post) \<or> (\<exists>pre post. cs = pre @ sub @ post)"
    then show "\<exists>pre post. c # cs = pre @ sub @ post"
    proof
      assume "\<exists>post. c # cs = sub @ post"
      then obtain post where "c # cs = [] @ sub @ post" by auto
      then show ?thesis by blast
    next
      assume "\<exists>pre post. cs = pre @ sub @ post"
      then obtain pre post where "cs = pre @ sub @ post" by blast
      then have "c # cs = (c # pre) @ sub @ post" by simp
      then show ?thesis by blast
    qed
  qed
  with Cons show ?case by (simp add: startswith_iff)
qed

lemma occurs_str_in: "occurs sub s = str_in sub s"
  by (simp add: occurs_def str_in_iff)

section \<open>Facts about the pandas operations\<close>

lemma filter_eq_index: "j < n \<Longrightarrow> filter (\<lambda>i. i = j) [0..<n] = [j]"
  by (induction n) (auto simp add: less_Suc_eq)

lemma positions_distinct:
  assumes "distinct cols" and "j < length cols"
  shows "positions (cols ! j) cols = [j]"
proof -
  have "filter (\<lambda>i. cols ! i = cols ! j) [0..<length cols] = filter (\<lambda>i. i = j) [0..<length cols]"
    using assms by (intro filter_cong refl) (auto simp add: nth_eq_iff_index_eq)
  with assms(2) show ?thesis by (simp add: positions_def filter_eq_index)
qed

lemma positions_empty_iff: "positions l cols = [] \<longleftrightarrow> l \<notin> set cols"
  by (auto simp add: positions_def filter_empty_conv in_set_conv_nth)

lemma positions_mem: "i \<in> set (positions l cols) \<longleftrightarrow> i < length cols \<and> cols ! i = l"
  by (auto simp add: positions_def)









lemma py_eq_same: "c \<noteq> NaN \<Longrightarrow> py_eq c c"
  by (cases c) auto


lemma py_eq_NaN: "\<not> py_eq c NaN"
  by (cases c) auto


lemma concat_positions:
  "distinct cols \<Longrightarrow> \<forall>j\<in>set js. j < length cols \<Longrightarrow>
   concat (map (\<lambda>l. positions l cols) (map (\<lambda>j. cols ! j) js)) = js"
  by (induction js) (simp_all add: positions_distinct)

lemma name_in_question_str_in:
  "str_in (lower (py_str c)) (lower q) = name_in_question q c"
  by (simp add: name_in_question_def occurs_str_in)

section \<open>Facts about the basic tool\<close>



lemma selected_rows_nonempty:
  assumes "find (name_in_question q) (map (\<lambda>r. r ! i) (rows d)) = Some p" and "p \<noteq> NaN"
  shows "rows (filter_rows d i p) \<noteq> []"
proof -
  from assms(1) have "p \<in> set (map (\<lambda>r. r ! i) (rows d))" by (auto simp add: find_Some_iff)
  then obtain r' where "r' \<in> set (rows d)" "r' ! i = p" by auto
  with assms(2) have "r' \<in> set (rows d) \<and> py_eq (r' ! i) p"
    by (simp add: py_eq_same)
  then show ?thesis
    unfolding filter_rows_def by (simp add: filter_empty_conv) blast
qed

lemma total_sales_not_found_cases:
  assumes pos: "positions (Str ''Product Name'') (columns d) = i # ps"
  shows "(get_product_total_sales d q = Inr (Text ''Product not found in the data.'')) \<longleftrightarrow>
         (\<forall>p. find (name_in_question q) (map (\<lambda>r. r ! i) (rows d)) = Some p \<longrightarrow> \<not> truthy p)"
    and "(get_product_total_sales d q = Inr (Text ''No sales data available for this product.'')) \<longleftrightarrow>
         find (name_in_question q) (map (\<lambda>r. r ! i) (rows d)) = Some NaN"
proof -
  let ?names = "map (\<lambda>r. r ! i) (rows d)"
  have fnd: "find (\<lambda>product. str_in (lower (py_str product)) (lower q)) ?names =
             find (name_in_question q) ?names"
    by (simp add: name_in_question_str_in)
  note nonempty = selected_rows_nonempty [where d = d and i = i and q = q]
  have empty: "rows (filter_rows d i NaN) = []"
    by (simp add: filter_rows_def py_eq_NaN)
  show "(get_product_total_sales d q = Inr (Text ''Product not found in the data.'')) \<longleftrightarrow>
         (\<forall>p. find (name_in_question q) ?names = Some p \<longrightarrow> \<not> truthy p)"
  proof (cases "find (name_in_question q) ?names")
    case None
    then show ?thesis by (simp add: get_product_total_sales_def pos fnd)
  next
    case (Some p)
    show ?thesis
    proof (cases "p = NaN")
      case True
      with Some empty show ?thesis by (simp add: get_product_total_sales_def pos fnd Let_def)
    next
      case False
      with Some nonempty [of p] show ?thesis
        by (simp add: get_product_total_sales_def pos fnd Let_def
            split: sum.splits list.splits cell.splits)
    qed
  qed
  show "(get_product_total_sales d q = Inr (Text ''No sales data available for this product.'')) \<longleftrightarrow>
         find (name_in_question q) ?names = Some NaN"
  proof (cases "find (name_in_question q) ?names")
    case None
    then show ?thesis by (simp add: get_product_total_sales_def pos fnd)
  next
    case (Some p)
    show ?thesis
    proof (cases "p = NaN")
      case True
      with Some empty show ?thesis by (simp add: get_product_total_sales_def pos fnd Let_def)
    next
      case False
      with Some nonempty [of p] show ?thesis
        by (simp add: get_product_total_sales_def pos fnd Let_def
            split: sum.splits list.splits cell.splits)
    qed
  qed
qed

section \<open>Facts about the tool for the top products\<close>

lemma nth_drop_map: "map (\<lambda>j. r ! j) [k..<length r] = drop k r"
  by (simp add: list_eq_iff_nth_eq)

lemma select_tail_columns:
  assumes "distinct (columns d)"
  shows "select_columns d (drop 1 (columns d)) =
         Inr \<lparr>columns = drop 1 (columns d),
              dtypes = map (\<lambda>j. dtypes d ! j) [1..<length (columns d)],
              rows = map (\<lambda>r. map (\<lambda>j. r ! j) [1..<length (columns d)]) (rows d)\<rparr>"
proof -
  let ?cols = "columns d"
  let ?js = "[1..<length ?cols]"
  have ls: "drop 1 ?cols = map (\<lambda>j. ?cols ! j) ?js"
    by (simp only: nth_drop_map)
  have ex: "\<not> list_ex (\<lambda>l. positions l ?cols = []) (map (\<lambda>j. ?cols ! j) ?js)"
    by (auto simp add: list_ex_iff positions_empty_iff)
  have idx: "concat (map (\<lambda>l. positions l ?cols) (map (\<lambda>j. ?cols ! j) ?js)) = ?js"
    using assms by (intro concat_positions) auto
  show ?thesis
    unfolding ls select_columns_def using ex idx by (simp add: Let_def)
qed

lemma py_add_error: "py_add a b = Inl e \<Longrightarrow> e = TypeError"
  by (cases a; cases b) auto

lemma add_all_error: "add_all acc cs = Inl e \<Longrightarrow> e = TypeError"
  by (induction cs arbitrary: acc) (auto split: sum.splits dest: py_add_error)

lemma row_sum_error: "row_sum r = Inl e \<Longrightarrow> e = TypeError"
  by (auto simp add: row_sum_def split: list.splits dest: add_all_error)

lemma row_sums_error: "row_sums rs = Inl e \<Longrightarrow> e = TypeError"
  by (induction rs) (auto split: sum.splits dest: row_sum_error)

lemma set_column_object:
  assumes dist: "distinct (columns d)"
    and len: "length (dtypes d) = length (columns d)"
  shows "\<exists>k. positions l (columns (set_column d l Object vals)) = [k]
          \<and> dtypes (set_column d l Object vals) ! k = Object"
proof (cases "l \<in> set (columns d)")
  case False
  let ?n = "length (columns d)"
  from False have eq: "set_column d l Object vals =
      \<lparr>columns = columns d @ [l], dtypes = dtypes d @ [Object],
       rows = map2 (\<lambda>r v. r @ [v]) (rows d) vals\<rparr>"
    by (simp add: set_column_def positions_empty_iff [symmetric])
  have dist2: "distinct (columns d @ [l])"
    using dist False by simp
  have "positions ((columns d @ [l]) ! ?n) (columns d @ [l]) = [?n]"
    using dist2 by (intro positions_distinct) simp_all
  then have "positions l (columns d @ [l]) = [?n]"
    by simp
  moreover have "(dtypes d @ [Object]) ! ?n = Object"
    using len by (simp add: nth_append)
  ultimately show ?thesis
    unfolding eq by simp
next
  case True
  let ?n = "length (columns d)"
  from True obtain k where k: "k < ?n" "columns d ! k = l"
    by (auto simp add: in_set_conv_nth)
  with dist have pos: "positions l (columns d) = [k]"
    using positions_distinct [of "columns d" k] by simp
  then have eq: "set_column d l Object vals =
      \<lparr>columns = columns d, dtypes = (dtypes d)[k := Object],
       rows = map2 (\<lambda>r v. r[k := v]) (rows d) vals\<rparr>"
    by (simp add: set_column_def)
  have "(dtypes d)[k := Object] ! k = Object"
    using k(1) len by simp
  with pos show ?thesis
    unfolding eq by simp
qed

lemma nlargest_object:
  "positions l (columns d) = [k] \<Longrightarrow> dtypes d ! k = Object \<Longrightarrow> nlargest n l d = Inl TypeError"
  by (simp add: nlargest_def)

text \<open>
  As soon as one of the columns after the first is an \<open>object\<close> column, the column of
  totals is one, and \<open>nlargest\<close> refuses it: whatever the cells are, the tool raises
  \<open>TypeError\<close>, in the sum or in the selection.
\<close>

lemma top_products_object_dtype:
  assumes dist: "distinct (columns (frames h (data st)))"
    and len: "length (dtypes (frames h (data st))) = length (columns (frames h (data st)))"
    and obj: "Object \<in> set (drop 1 (dtypes (frames h (data st))))"
  shows "fst (get_top_products np_sum st h) = Inl TypeError"
proof -
  let ?d = "frames h (data st)"
  let ?s = "\<lparr>columns = drop 1 (columns ?d),
             dtypes = map (\<lambda>j. dtypes ?d ! j) [1..<length (columns ?d)],
             rows = map (\<lambda>r. map (\<lambda>j. r ! j) [1..<length (columns ?d)]) (rows ?d)\<rparr>"
  have sel: "select_columns ?d (drop 1 (columns ?d)) = Inr ?s"
    using dist by (rule select_tail_columns)
  have "map (\<lambda>j. dtypes ?d ! j) [1..<length (columns ?d)] = drop 1 (dtypes ?d)"
    using nth_drop_map [of "dtypes ?d" 1] len by simp
  with obj have o: "Object \<in> set (dtypes ?s)"
    by simp
  show ?thesis
  proof (cases "row_sums (rows ?s)")
    case (Inl e)
    then have "e = TypeError"
      by (rule row_sums_error)
    with Inl o have "sum_axis1 np_sum ?s = Inl TypeError"
      by (simp add: sum_axis1_def)
    with sel show ?thesis
      by (simp add: get_top_products_def Let_def)
  next
    case (Inr totals)
    with o have s: "sum_axis1 np_sum ?s = Inr (totals, Object)"
      by (simp add: sum_axis1_def)
    from set_column_object [OF dist len, of "Str ''Total Sales''" totals]
    obtain k where "positions (Str ''Total Sales'')
          (columns (set_column ?d (Str ''Total Sales'') Object totals)) = [k]"
      "dtypes (set_column ?d (Str ''Total Sales'') Object totals) ! k = Object"
      by blast
    then have "nlargest 5 (Str ''Total Sales'')
        (set_column ?d (Str ''Total Sales'') Object totals) = Inl TypeError"
      by (rule nlargest_object)
    with sel s show ?thesis
      by (simp add: get_top_products_def Let_def)
  qed
qed

section \<open>Facts about the monthly tool\<close>








section \<open>Claims about the router\<close>

text \<open>
  C1. For every question, the router returns one of its four tool names, and the rules are
  tried in order on the lowercased question: "product" with "sales" or "sell" gives
  \<open>get_product_sales\<close> (ProductSales); otherwise "top" with "product" or "selling" gives
  \<open>get_top_products\<close> (TopProducts); otherwise "month", or a column label matching
  \<open>^\d{4}-\d{2}$\<close> that occurs in the question, gives \<open>get_monthly_sales\<close>
  (MonthlySales); otherwise \<open>general_query\<close> (GeneralQuery). Two questions that agree
  after lowercasing are routed alike, and a question that satisfies rule 1 and rule 2
  goes to \<open>get_product_sales\<close>.
\<close>

theorem router_first_match_wins:
  "router st h =
     (if occurs ''product'' (lower (question st)) \<and>
         (occurs ''sales'' (lower (question st)) \<or> occurs ''sell'' (lower (question st)))
        then ''get_product_sales''
      else if occurs ''top'' (lower (question st)) \<and>
         (occurs ''product'' (lower (question st)) \<or> occurs ''selling'' (lower (question st)))
        then ''get_top_products''
      else if occurs ''month'' (lower (question st)) \<or>
         (\<exists>s. Str s \<in> set (columns (frames h (data st))) \<and> month_pattern s \<and>
              occurs s (lower (question st)))
        then ''get_monthly_sales''
      else ''general_query'')
   \<and> (\<forall>st'. lower (question st') = lower (question st) \<and> data st' = data st \<longrightarrow>
          router st' h = router st h)
   \<and> (occurs ''product'' (lower (question st)) \<and>
        (occurs ''sales'' (lower (question st)) \<or> occurs ''sell'' (lower (question st))) \<and>
        occurs ''top'' (lower (question st)) \<and>
        (occurs ''product'' (lower (question st)) \<or> occurs ''selling'' (lower (question st)))
       \<longrightarrow> router st h = ''get_product_sales'')"
proof -
  have months:
    "list_ex (\<lambda>month. occurs month q) (month_columns d) \<longleftrightarrow>
     (\<exists>s. Str s \<in> set (columns d) \<and> month_pattern s \<and> occurs s q)" for q d
    by (auto simp add: list_ex_iff month_columns_def split: cell.splits if_splits)
  show ?thesis
    by (auto simp add: router_def Let_def occurs_str_in [symmetric] months)
qed

theorem router_first_match_wins_witness:
  "router (ask ''Which PRODUCT sells best: the top product?'') example_store = ''get_product_sales''
   \<and> router (ask ''which product SELLS best: the top product?'') example_store =
     router (ask ''Which PRODUCT sells best: the top product?'') example_store"
proof -
  let ?st = "ask ''Which PRODUCT sells best: the top product?''"
  let ?st' = "ask ''which product SELLS best: the top product?''"
  have low: "lower (question ?st') = lower (question ?st)"
    by (simp add: ask_def lower_def lower_char_def)
  have dat: "data ?st' = data ?st"
    by (simp add: ask_def)
  have r1: "occurs ''product'' (lower (question ?st))"
    by (simp add: occurs_str_in ask_def lower_def lower_char_def)
  have r2: "occurs ''sell'' (lower (question ?st))"
    by (simp add: occurs_str_in ask_def lower_def lower_char_def)
  have r3: "occurs ''top'' (lower (question ?st))"
    by (simp add: occurs_str_in ask_def lower_def lower_char_def)
  note rfm = router_first_match_wins [of ?st example_store]
  from rfm r1 r2 r3 have a: "router ?st example_store = ''get_product_sales''"
    by simp
  from rfm have "\<forall>st'. lower (question st') = lower (question ?st) \<and> data st' = data ?st \<longrightarrow>
      router st' example_store = router ?st example_store"
    by (elim conjE)
  with low dat have b: "router ?st' example_store = router ?st example_store"
    by blast
  from a b show ?thesis by simp
qed

section \<open>Claims about the basic tool\<close>



text \<open>
  C7, as the code has it. In a table with one \<open>Product Name\<close> column the tool answers
  "Product not found in the data." exactly when no row's lowercased name occurs in the
  lowercased question or the first such name is empty or zero, and it answers
  "No sales data available for this product." exactly when the first such name is a
  missing cell, which the filter \<open>==\<close> never selects.
\<close>

theorem basic_not_found_messages:
  assumes "positions (Str ''Product Name'') (columns d) = [i]"
  shows "((get_product_total_sales d q = Inr (Text ''Product not found in the data.'')) \<longleftrightarrow>
            (\<forall>r\<in>set (rows d). \<not> name_in_question q (r ! i)) \<or>
            (\<exists>p. find (name_in_question q) (map (\<lambda>r. r ! i) (rows d)) = Some p \<and> \<not> truthy p))
       \<and> ((get_product_total_sales d q = Inr (Text ''No sales data available for this product.'')) \<longleftrightarrow>
            find (name_in_question q) (map (\<lambda>r. r ! i) (rows d)) = Some NaN)"
proof -
  have "(\<forall>p. find (name_in_question q) (map (\<lambda>r. r ! i) (rows d)) = Some p \<longrightarrow> \<not> truthy p) \<longleftrightarrow>
        (\<forall>r\<in>set (rows d). \<not> name_in_question q (r ! i)) \<or>
        (\<exists>p. find (name_in_question q) (map (\<lambda>r. r ! i) (rows d)) = Some p \<and> \<not> truthy p)"
  proof (cases "find (name_in_question q) (map (\<lambda>r. r ! i) (rows d))")
    case None
    then have "\<forall>r\<in>set (rows d). \<not> name_in_question q (r ! i)"
      by (auto simp add: find_None_iff)
    with None show ?thesis by simp
  next
    case (Some p)
    then have "p \<in> set (map (\<lambda>r. r ! i) (rows d)) \<and> name_in_question q p"
      by (auto simp add: find_Some_iff)
    then have "\<not> (\<forall>r\<in>set (rows d). \<not> name_in_question q (r ! i))"
      by auto
    with Some show ?thesis by auto
  qed
  with total_sales_not_found_cases [OF assms, of q] show ?thesis
    by simp
qed

theorem basic_not_found_messages_witness:
  "get_product_total_sales unnamed_row_frame ''maintenance costs'' =
     Inr (Text ''No sales data available for this product.'')
   \<and> get_product_total_sales unnamed_row_frame ''sales of PC-2000'' =
     Inr (Text ''Product not found in the data.'')"
proof -
  have p: "positions (Str ''Product Name'') (columns unnamed_row_frame) = [0]"
    by (simp add: unnamed_row_frame_def positions_def upt_rec)
  have a: "find (name_in_question ''maintenance costs'') (map (\<lambda>r. r ! 0) (rows unnamed_row_frame))
           = Some NaN"
    by (simp add: unnamed_row_frame_def name_in_question_def occurs_str_in lower_def lower_char_def)
  have b: "\<forall>r\<in>set (rows unnamed_row_frame). \<not> name_in_question ''sales of PC-2000'' (r ! 0)"
    by (simp add: unnamed_row_frame_def name_in_question_def occurs_str_in lower_def lower_char_def)
  from basic_not_found_messages [OF p, of "''maintenance costs''"] a
       basic_not_found_messages [OF p, of "''sales of PC-2000''"] b
  show ?thesis by blast
qed

text \<open>
  C7 as the specification states it fails: a product that is found in a table with no
  column to sum gets the total 0.00, not the message "No sales data available for this
  product.".
\<close>

theorem basic_no_summable_columns_counterexample:
  "get_product_total_sales names_only_frame ''total sales for PC-1000'' =
     Inr (Text ''Total sales for PC-1000: 0.00'')"
  by code_simp

text \<open>
  C10, as the code has it. In a table with one \<open>Product Name\<close> column, when the loop selects a product name that is not a missing
  cell, the filter by equality with that name keeps at least one row, and the tool does
  not answer "No sales data available for this product.".
\<close>

theorem no_sales_data_needs_missing_name:
  assumes "positions (Str ''Product Name'') (columns d) = [i]"
    and "find (name_in_question q) (map (\<lambda>r. r ! i) (rows d)) = Some product_name"
    and "product_name \<noteq> NaN"
  shows "rows (filter_rows d i product_name) \<noteq> [] \<and>
         get_product_total_sales d q \<noteq> Inr (Text ''No sales data available for this product.'')"
  using assms selected_rows_nonempty [OF assms(2,3)] total_sales_not_found_cases(2) [OF assms(1), of q]
  by simp

theorem no_sales_data_needs_missing_name_witness:
  "rows (filter_rows unnamed_row_frame 0 (Str ''PC-1000'')) \<noteq> [] \<and>
   get_product_total_sales unnamed_row_frame ''sales of pc-1000'' \<noteq>
     Inr (Text ''No sales data available for this product.'')"
proof -
  have p: "positions (Str ''Product Name'') (columns unnamed_row_frame) = [0]"
    by (simp add: unnamed_row_frame_def positions_def upt_rec)
  have a: "find (name_in_question ''sales of pc-1000'') (map (\<lambda>r. r ! 0) (rows unnamed_row_frame))
           = Some (Str ''PC-1000'')"
    by (simp add: unnamed_row_frame_def name_in_question_def occurs_str_in lower_def lower_char_def)
  have c: "Str ''PC-1000'' \<noteq> NaN"
    by simp
  from no_sales_data_needs_missing_name [OF p a c] show ?thesis .
qed

text \<open>
  C10 as stated fails: a row whose product cell is blank carries the name \<open>NaN\<close>, printed
  \<open>nan\<close>; a question with "nan" in it selects that name, the filter by equality keeps no
  row, and the branch is taken.
\<close>

theorem no_sales_data_reachable_counterexample:
  "rows (filter_rows unnamed_row_frame 0 NaN) = [] \<and>
   get_product_total_sales unnamed_row_frame ''finance report'' =
     Inr (Text ''No sales data available for this product.'')"
  by code_simp

section \<open>The loader's column names\<close>

lemma normalise_column_columns: "columns (normalise_column to_ym col df) = columns df"
  by (simp add: normalise_column_def split: list.splits)

lemma fold_normalise_columns: "columns (fold (normalise_column to_ym) cs df) = columns df"
  by (induction cs arbitrary: df) (simp_all add: normalise_column_columns)

lemma load_excel_data_columns:
  "load_excel_data to_ym (headers # body) = Inr df \<Longrightarrow>
   columns df = map Str (header_loop headers Map.empty [])"
  by (auto simp add: load_excel_data_def Let_def fold_normalise_columns)

text \<open>
  C8, at the inputs where the loader departs from it. The header \<open>2021-07-01\<close> is kept as
  it is, and the cells below it are converted instead; and the third header of
  \<open>A, A_1, A\<close> becomes \<open>A_1\<close>, which is already there.
\<close>

theorem load_excel_data_keeps_date_header:
  "load_excel_data to_ym [[Str ''Product Name'', Str ''2021-07-01''], [Str ''PC-1000'', Num 5]] =
     Inr \<lparr>columns = [Str ''Product Name'', Str ''2021-07-01''],
          dtypes = [Object, Object],
          rows = [[Str ''PC-1000'', to_ym (Num 5)]]\<rparr>
   \<and> load_excel_data to_ym [[Str ''A'', Str ''A_1'', Str ''A''], [Num 1, Num 2, Num 3]] =
     Inr \<lparr>columns = [Str ''A'', Str ''A_1'', Str ''A_1''],
          dtypes = [Object, Object, Object],
          rows = [[Num 1, Num 2, Num 3]]\<rparr>"
  by (simp add: load_excel_data_def date_pattern_def is_digit_def normalise_column_def
      positions_def upt_rec str_nat.simps digit_char_def read_dtype_def)

section \<open>The tools and the store\<close>

text \<open>
  C9. The tools that look up products and months return the store they were given. The
  tool for the top products changes the store at one reference only, the new one it
  allocates for its copy; every frame that was there before, the one of the state among
  them, is as it was.
\<close>

theorem tools_leave_table_unchanged:
  "snd (get_product_sales st h) = h
   \<and> snd (get_monthly_sales argsort st h) = h
   \<and> (\<forall>r. r \<noteq> next_ref h \<longrightarrow> frames (snd (get_top_products np_sum st h)) r = frames h r)
   \<and> (data st < next_ref h \<longrightarrow>
        frames (snd (get_top_products np_sum st h)) (data st) = frames h (data st))"
proof -
  have a: "snd (get_product_sales st h) = h"
    by (simp add: get_product_sales_def Let_def split: list.splits)
  have b: "snd (get_monthly_sales argsort st h) = h"
    by (simp add: get_monthly_sales_def Let_def split: option.splits sum.splits)
  have c: "frames (snd (get_top_products np_sum st h)) r = frames h r" if "r \<noteq> next_ref h" for r
    using that by (simp add: get_top_products_def Let_def split: sum.splits)
  from a b c show ?thesis by simp
qed

theorem tools_leave_table_unchanged_witness:
  "frames (snd (get_top_products exact_sum (ask ''top products'') example_store)) 0 = example_frame
   \<and> frames (snd (get_top_products exact_sum (ask ''top products'') example_store)) 1 =
     \<lparr>columns = [Str ''Product Name'', Str ''2021-07'', Str ''2021-08'', Str ''Total Sales''],
      dtypes = [Object, Object, Object, Object],
      rows = [[Str ''PC-1000'', Num 10, Num 20, Num 30],
              [Str ''PC-1000-X'', Num 30, Num 5, Num 35]]\<rparr>"
proof -
  have "data (ask ''top products'') < next_ref example_store"
    by (simp add: ask_def example_store_def)
  with tools_leave_table_unchanged
         [where st = "ask ''top products''" and h = example_store and np_sum = exact_sum]
  have "frames (snd (get_top_products exact_sum (ask ''top products'') example_store)) 0 =
        frames example_store 0"
    by (simp add: ask_def)
  then have a: "frames (snd (get_top_products exact_sum (ask ''top products'') example_store)) 0 = example_frame"
    by (simp add: example_store_def)
  have b: "frames (snd (get_top_products exact_sum (ask ''top products'') example_store)) 1 =
     \<lparr>columns = [Str ''Product Name'', Str ''2021-07'', Str ''2021-08'', Str ''Total Sales''],
      dtypes = [Object, Object, Object, Object],
      rows = [[Str ''PC-1000'', Num 10, Num 20, Num 30],
              [Str ''PC-1000-X'', Num 30, Num 5, Num 35]]\<rparr>"
    by code_simp
  from a b show ?thesis by simp
qed

section \<open>Claims about the product tool\<close>








section \<open>Claims about the tool for the top products\<close>

text \<open>
  C3, at the tables where the code departs from it. The claim asks for the ranked list on
  every table. A table of the loader has its sales columns under a text header, so they
  are \<open>object\<close> columns, the column of totals that \<open>sum(axis=1)\<close> yields is an
  \<open>object\<close> column, and \<open>nlargest\<close> refuses it. On every table with distinct labels
  that has an \<open>object\<close> column after the first, the tool raises \<open>TypeError\<close> where the
  claim has a ranked list; this holds for the table without rows as well, where the
  claim has the empty list.
\<close>

theorem top_products_raises_on_object_columns:
  "distinct (columns (frames h (data st))) \<and>
   length (dtypes (frames h (data st))) = length (columns (frames h (data st))) \<and>
   Object \<in> set (drop 1 (dtypes (frames h (data st)))) \<longrightarrow>
     fst (get_top_products np_sum st h) = Inl TypeError"
  using top_products_object_dtype [of h st np_sum] by blast

theorem top_products_raises_on_object_columns_witness:
  "load_excel_data (\<lambda>c. c)
     [[Str ''Product Name'', Str ''2021-07'', Str ''2021-08''],
      [Str ''PC-1000'', Num 10, Num 20],
      [Str ''PC-1000-X'', Num 30, Num 5]] = Inr example_frame
   \<and> fst (get_top_products exact_sum (ask ''top products'') example_store) = Inl TypeError
   \<and> load_excel_data (\<lambda>c. c) [[Str ''Product Name'', Str ''2021-07'']] = Inr header_only_frame
   \<and> fst (get_top_products exact_sum (ask ''top products'') header_only_store) = Inl TypeError"
proof -
  have l1: "load_excel_data (\<lambda>c. c)
     [[Str ''Product Name'', Str ''2021-07'', Str ''2021-08''],
      [Str ''PC-1000'', Num 10, Num 20],
      [Str ''PC-1000-X'', Num 30, Num 5]] = Inr example_frame"
    by code_simp
  have l2: "load_excel_data (\<lambda>c. c) [[Str ''Product Name'', Str ''2021-07'']] =
      Inr header_only_frame"
    by code_simp
  have h1: "distinct (columns (frames example_store (data (ask ''top products'')))) \<and>
      length (dtypes (frames example_store (data (ask ''top products'')))) =
      length (columns (frames example_store (data (ask ''top products'')))) \<and>
      Object \<in> set (drop 1 (dtypes (frames example_store (data (ask ''top products'')))))"
    by (simp add: example_store_def example_frame_def)
  have h2: "distinct (columns (frames header_only_store (data (ask ''top products'')))) \<and>
      length (dtypes (frames header_only_store (data (ask ''top products'')))) =
      length (columns (frames header_only_store (data (ask ''top products'')))) \<and>
      Object \<in> set (drop 1 (dtypes (frames header_only_store (data (ask ''top products'')))))"
    by (simp add: header_only_store_def header_only_frame_def)
  from top_products_raises_on_object_columns
         [where h = example_store and st = "ask ''top products''" and np_sum = exact_sum] h1
  have a: "fst (get_top_products exact_sum (ask ''top products'') example_store) = Inl TypeError"
    by blast
  from top_products_raises_on_object_columns
         [where h = header_only_store and st = "ask ''top products''" and np_sum = exact_sum] h2
  have b: "fst (get_top_products exact_sum (ask ''top products'') header_only_store) =
      Inl TypeError"
    by blast
  from l1 a l2 b show ?thesis
    by blast
qed




section \<open>Claims about the monthly tool\<close>




end
